theory Spec2Isabelle
  imports Complex_Main
begin

section \<open>Entry types\<close>

text \<open>
  The two entry shapes are the TypeScript interfaces \<^verbatim>\<open>JournalEntry\<close> and
  \<^verbatim>\<open>MoodEntry\<close>, declared identically in the application root, the dashboard and
  the analytics component. A JavaScript \<^verbatim>\<open>number\<close> is taken as an exact real; the
  optional fields \<^verbatim>\<open>location?\<close> and \<^verbatim>\<open>weather?\<close> are options. The field
  \<^verbatim>\<open>id\<close> is written \<open>id_journal\<close> and \<open>id_mood\<close>, since \<open>id\<close> is the identity
  function of HOL, and \<^verbatim>\<open>notes\<close> is written \<open>notes'\<close>, since \<open>notes\<close> is a
  keyword of Isabelle.
\<close>

record Medication =
  name :: string
  taken :: bool
  time :: string

record JournalEntry =
  id_journal :: string
  date :: string
  medications :: "Medication list"
  sleepHours :: real
  sleepQuality :: real
  studyHours :: real
  studySubjects :: string
  clinicalRotation :: string
  journalText :: string
  gratitude :: string
  goals :: string
  wellness :: string
  challenges :: string
  learnings :: string

record MoodEntry =
  id_mood :: string
  timestamp :: string
  mood :: real
  anxiety :: real
  energy :: real
  stress :: real
  psychoticSymptoms :: "string list"
  triggers :: string
  notes' :: string
  location :: "string option"
  weather :: "string option"


section \<open>The entry store of the application root\<close>

text \<open>
  The React state of \<^verbatim>\<open>App\<close>: four \<^verbatim>\<open>useState\<close> cells.
\<close>

record AppState =
  activeTab :: string
  journalEntries :: "JournalEntry list"
  moodEntries :: "MoodEntry list"
  selectedDate :: "string option"

definition initialState :: AppState where
  "initialState =
     \<lparr>activeTab = ''dashboard'', journalEntries = [], moodEntries = [], selectedDate = None\<rparr>"

text \<open>
  \<^verbatim>\<open>Array.prototype.findIndex\<close>: the index of the first element satisfying the
  predicate, \<open>-1\<close> when there is none.
\<close>

fun findIndex :: "('a \<Rightarrow> bool) \<Rightarrow> 'a list \<Rightarrow> int" where
  "findIndex p [] = - 1"
| "findIndex p (x # xs) =
     (if p x then 0
      else (let i = findIndex p xs in if i < 0 then - 1 else i + 1))"

text \<open>
  The updater passed to \<^verbatim>\<open>setJournalEntries\<close> and to \<^verbatim>\<open>setMoodEntries\<close> is
  the same code at the two entry types; it is modelled once, with the \<^verbatim>\<open>id\<close>
  selector as argument \<open>ident\<close>.
\<close>

definition upsert :: "('a \<Rightarrow> string) \<Rightarrow> 'a list \<Rightarrow> 'a \<Rightarrow> 'a list" where
  "upsert ident prevEntries entry =
     (let existingIndex = findIndex (\<lambda>e. ident e = ident entry) prevEntries
      in if existingIndex \<ge> 0
         then prevEntries[nat existingIndex := entry]
         else prevEntries @ [entry])"

definition handleSaveJournalEntry :: "AppState \<Rightarrow> JournalEntry \<Rightarrow> AppState" where
  "handleSaveJournalEntry s entry =
     s\<lparr>journalEntries := upsert id_journal (journalEntries s) entry,
       activeTab := ''dashboard''\<rparr>"

definition handleSaveMoodEntry :: "AppState \<Rightarrow> MoodEntry \<Rightarrow> AppState" where
  "handleSaveMoodEntry s entry =
     s\<lparr>moodEntries := upsert id_mood (moodEntries s) entry\<rparr>"


section \<open>The load effect of the application root\<close>

text \<open>
  \<^verbatim>\<open>localStorage\<close> is a map from keys to strings (\<^verbatim>\<open>getItem\<close> gives
  \<^verbatim>\<open>null\<close> on a missing key, here \<open>None\<close>). \<^verbatim>\<open>JSON.parse\<close> belongs to
  the runtime and is an argument of the model: it returns the decoded collection or
  throws \<^verbatim>\<open>SyntaxError\<close>. The console is the list of messages written by
  \<^verbatim>\<open>console.error\<close>.
\<close>

datatype error = RangeError | SyntaxError

type_synonym console = "string list"

text \<open>
  One \<^verbatim>\<open>if (saved) { try { set(JSON.parse(saved)) } catch (error) { console.error(..) } }\<close>
  block. A string is truthy when it is not empty. The result is the value handed to the
  state setter, if any, and the console output.
\<close>

definition loadKey ::
    "(string \<Rightarrow> error + 'v) \<Rightarrow> string option \<Rightarrow> string \<Rightarrow> 'v option \<times> console" where
  "loadKey JSON_parse saved msg =
     (case saved of
        None \<Rightarrow> (None, [])
      | Some text \<Rightarrow>
          if text = [] then (None, [])
          else (case JSON_parse text of
                  Inr v \<Rightarrow> (Some v, [])
                | Inl err \<Rightarrow> (None, [msg])))"

definition loadEntries ::
    "(string \<Rightarrow> error + JournalEntry list) \<Rightarrow> (string \<Rightarrow> error + MoodEntry list) \<Rightarrow>
     (string \<Rightarrow> string option) \<Rightarrow> AppState \<Rightarrow> AppState \<times> console" where
  "loadEntries parseJournal parseMood localStorage s =
     (let savedJournalEntries = localStorage ''journalEntries'';
          savedMoodEntries = localStorage ''moodEntries'';
          (j, log1) = loadKey parseJournal savedJournalEntries ''Error loading journal entries:'';
          s1 = (case j of None \<Rightarrow> s | Some v \<Rightarrow> s\<lparr>journalEntries := v\<rparr>);
          (m, log2) = loadKey parseMood savedMoodEntries ''Error loading mood entries:'';
          s2 = (case m of None \<Rightarrow> s1 | Some v \<Rightarrow> s1\<lparr>moodEntries := v\<rparr>)
      in (s2, log1 @ log2))"

text \<open>The effect runs once, on mount, on the initial state.\<close>

definition mount ::
    "(string \<Rightarrow> error + JournalEntry list) \<Rightarrow> (string \<Rightarrow> error + MoodEntry list) \<Rightarrow>
     (string \<Rightarrow> string option) \<Rightarrow> AppState \<times> console" where
  "mount parseJournal parseMood localStorage =
     loadEntries parseJournal parseMood localStorage initialState"


section \<open>The runtime's dates\<close>

text \<open>
  A \<^verbatim>\<open>Date\<close> is its time value, the milliseconds since the epoch, or
  \<^verbatim>\<open>Invalid Date\<close> (time value \<^verbatim>\<open>NaN\<close>), here \<open>None\<close>. The parser covers the
  two forms of the ECMAScript date-time string format that the application writes:
  the date-only form \<^verbatim>\<open>YYYY-MM-DD\<close> (UTC midnight), which the journal form stores,
  and the form \<^verbatim>\<open>YYYY-MM-DDTHH:mm:ss.sssZ\<close> of \<^verbatim>\<open>toISOString\<close>, which the mood
  tracker stores, both with fields in range. Every other string is
  \<^verbatim>\<open>Invalid Date\<close> in the model: the empty string and other non-dates as in
  every engine, further formats and fields out of range, on which engines differ, by
  choice of the model.
\<close>

definition msPerDay :: int where
  "msPerDay = 86400000"

definition digitVal :: "char \<Rightarrow> int option" where
  "digitVal c =
     (let n = (of_char c :: nat) in if 48 \<le> n \<and> n \<le> 57 then Some (int n - 48) else None)"

fun digitsFrom :: "int \<Rightarrow> string \<Rightarrow> int option" where
  "digitsFrom acc [] = Some acc"
| "digitsFrom acc (c # cs) =
     (case digitVal c of None \<Rightarrow> None | Some d \<Rightarrow> digitsFrom (10 * acc + d) cs)"

definition digits :: "string \<Rightarrow> int option" where
  "digits s = digitsFrom 0 s"

definition isLeapYear :: "int \<Rightarrow> bool" where
  "isLeapYear y = (y mod 4 = 0 \<and> (y mod 100 \<noteq> 0 \<or> y mod 400 = 0))"

definition daysInMonth :: "int \<Rightarrow> int \<Rightarrow> int" where
  "daysInMonth y m =
     (if m = 2 then (if isLeapYear y then 29 else 28)
      else if m = 4 \<or> m = 6 \<or> m = 9 \<or> m = 11 then 30 else 31)"

text \<open>The day number of a civil date (days since 1970-01-01, proleptic Gregorian).\<close>

definition daysFromCivil :: "int \<Rightarrow> int \<Rightarrow> int \<Rightarrow> int" where
  "daysFromCivil y m d =
     (let y' = (if m \<le> 2 then y - 1 else y);
          era = y' div 400;
          yoe = y' - era * 400;
          doy = (153 * (if m > 2 then m - 3 else m + 9) + 2) div 5 + d - 1;
          doe = yoe * 365 + yoe div 4 - yoe div 100 + doy
      in era * 146097 + doe - 719468)"

definition civilFromDays :: "int \<Rightarrow> int \<times> int \<times> int" where
  "civilFromDays z =
     (let z' = z + 719468;
          era = z' div 146097;
          doe = z' - era * 146097;
          yoe = (doe - doe div 1460 + doe div 36524 - doe div 146096) div 365;
          doy = doe - (365 * yoe + yoe div 4 - yoe div 100);
          mp = (5 * doy + 2) div 153;
          d = doy - (153 * mp + 2) div 5 + 1;
          m = (if mp < 10 then mp + 3 else mp - 9);
          y = yoe + era * 400 + (if m \<le> 2 then 1 else 0)
      in (y, m, d))"

definition parseDateOnly :: "string \<Rightarrow> int option" where
  "parseDateOnly s =
     (if length s = 10 \<and> s ! 4 = CHR ''-'' \<and> s ! 7 = CHR ''-''
      then (case (digits (take 4 s), digits (take 2 (drop 5 s)), digits (drop 8 s)) of
              (Some y, Some m, Some d) \<Rightarrow>
                if 1 \<le> m \<and> m \<le> 12 \<and> 1 \<le> d \<and> d \<le> daysInMonth y m
                then Some (daysFromCivil y m d) else None
            | _ \<Rightarrow> None)
      else None)"

definition parseTimeOfDay :: "string \<Rightarrow> int option" where
  "parseTimeOfDay s =
     (if length s = 14 \<and> s ! 0 = CHR ''T'' \<and> s ! 3 = CHR '':'' \<and> s ! 6 = CHR '':''
         \<and> s ! 9 = CHR ''.'' \<and> s ! 13 = CHR ''Z''
      then (case (digits (take 2 (drop 1 s)), digits (take 2 (drop 4 s)),
                  digits (take 2 (drop 7 s)), digits (take 3 (drop 10 s))) of
              (Some h, Some mi, Some sec, Some ms) \<Rightarrow>
                if h \<le> 23 \<and> mi \<le> 59 \<and> sec \<le> 59
                then Some (((h * 60 + mi) * 60 + sec) * 1000 + ms) else None
            | _ \<Rightarrow> None)
      else None)"

text \<open>\<^verbatim>\<open>new Date(s)\<close>, as the time value.\<close>

definition Date_parse :: "string \<Rightarrow> int option" where
  "Date_parse s =
     (if length s = 10 then map_option (\<lambda>d. d * msPerDay) (parseDateOnly s)
      else (case (parseDateOnly (take 10 s), parseTimeOfDay (drop 10 s)) of
              (Some d, Some t) \<Rightarrow> Some (d * msPerDay + t)
            | _ \<Rightarrow> None))"

definition digitChar :: "nat \<Rightarrow> char" where
  "digitChar d = char_of (48 + d)"

fun padDigits :: "nat \<Rightarrow> nat \<Rightarrow> string" where
  "padDigits 0 n = []"
| "padDigits (Suc k) n = padDigits k (n div 10) @ [digitChar (n mod 10)]"

text \<open>
  \<^verbatim>\<open>d.toISOString().split('T')[0]\<close> of a valid date: the UTC calendar date, with
  the expanded six-digit year outside 0000..9999.
\<close>

definition isoDate :: "int \<Rightarrow> string" where
  "isoDate t =
     (case civilFromDays (t div msPerDay) of
        (y, m, d) \<Rightarrow>
          (if 0 \<le> y \<and> y \<le> 9999 then padDigits 4 (nat y)
           else (if y < 0 then ''-'' else ''+'') @ padDigits 6 (nat \<bar>y\<bar>))
          @ ''-'' @ padDigits 2 (nat m) @ ''-'' @ padDigits 2 (nat d))"

text \<open>
  \<^verbatim>\<open>new Date(s).toISOString().split('T')[0]\<close>: \<^verbatim>\<open>toISOString\<close> throws
  \<^verbatim>\<open>RangeError\<close> on an invalid date.
\<close>

definition toISODate :: "string \<Rightarrow> error + string" where
  "toISODate s = (case Date_parse s of None \<Rightarrow> Inl RangeError | Some t \<Rightarrow> Inr (isoDate t))"


section \<open>The dashboard: seven-day aggregates and health alerts\<close>

text \<open>
  The current time \<^verbatim>\<open>new Date()\<close> is the argument \<open>now\<close>, in milliseconds;
  the props \<^verbatim>\<open>journalEntries\<close> and \<^verbatim>\<open>moodEntries\<close> are the arguments \<open>js\<close>
  and \<open>ms\<close>.
  \<^verbatim>\<open>weekAgo.setDate(weekAgo.getDate() - 7)\<close> moves the date back seven local
  calendar days at the same local time of day; with no change of the local UTC offset
  in between (the application's locale \<^verbatim>\<open>id-ID\<close> has none) that is seven times
  24 hours.
\<close>

definition weekAgo :: "int \<Rightarrow> int" where
  "weekAgo now = now - 7 * msPerDay"

text \<open>
  \<^verbatim>\<open>entryDate >= weekAgo\<close> compares the time values; it is false when
  \<^verbatim>\<open>entryDate\<close> is invalid.
\<close>

definition notBefore :: "int option \<Rightarrow> int \<Rightarrow> bool" where
  "notBefore entryDate w = (case entryDate of None \<Rightarrow> False | Some t \<Rightarrow> t \<ge> w)"

definition recentJournalEntries :: "int \<Rightarrow> JournalEntry list \<Rightarrow> JournalEntry list" where
  "recentJournalEntries now js =
     filter (\<lambda>entry. notBefore (Date_parse (date entry)) (weekAgo now)) js"

definition recentMoodEntries :: "int \<Rightarrow> MoodEntry list \<Rightarrow> MoodEntry list" where
  "recentMoodEntries now ms =
     filter (\<lambda>entry. notBefore (Date_parse (timestamp entry)) (weekAgo now)) ms"

text \<open>
  The six averages are one expression at six fields,
  \<^verbatim>\<open>recent.length > 0 ? recent.reduce((sum, entry) => sum + entry.f, 0) / recent.length : 0\<close>,
  modelled once.
\<close>

definition rollingMean :: "('a \<Rightarrow> real) \<Rightarrow> 'a list \<Rightarrow> real" where
  "rollingMean field recent =
     (if length recent > 0
      then foldl (\<lambda>sum entry. sum + field entry) 0 recent / real (length recent)
      else 0)"

definition avgMood :: "int \<Rightarrow> MoodEntry list \<Rightarrow> real" where
  "avgMood now ms = rollingMean mood (recentMoodEntries now ms)"

definition avgAnxiety :: "int \<Rightarrow> MoodEntry list \<Rightarrow> real" where
  "avgAnxiety now ms = rollingMean anxiety (recentMoodEntries now ms)"

definition avgEnergy :: "int \<Rightarrow> MoodEntry list \<Rightarrow> real" where
  "avgEnergy now ms = rollingMean energy (recentMoodEntries now ms)"

definition avgStress :: "int \<Rightarrow> MoodEntry list \<Rightarrow> real" where
  "avgStress now ms = rollingMean stress (recentMoodEntries now ms)"

definition avgSleep :: "int \<Rightarrow> JournalEntry list \<Rightarrow> real" where
  "avgSleep now js = rollingMean sleepHours (recentJournalEntries now js)"

definition avgStudy :: "int \<Rightarrow> JournalEntry list \<Rightarrow> real" where
  "avgStudy now js = rollingMean studyHours (recentJournalEntries now js)"

definition totalMeds :: "int \<Rightarrow> JournalEntry list \<Rightarrow> nat" where
  "totalMeds now js =
     foldl (\<lambda>sum entry. sum + length (medications entry)) 0 (recentJournalEntries now js)"

definition takenMeds :: "int \<Rightarrow> JournalEntry list \<Rightarrow> nat" where
  "takenMeds now js =
     foldl (\<lambda>sum entry. sum + length (filter taken (medications entry))) 0
       (recentJournalEntries now js)"

definition medicationAdherence :: "int \<Rightarrow> JournalEntry list \<Rightarrow> real" where
  "medicationAdherence now js =
     (if totalMeds now js > 0
      then real (takenMeds now js) / real (totalMeds now js) * 100
      else 0)"

definition psychoticSymptomDays :: "int \<Rightarrow> MoodEntry list \<Rightarrow> nat" where
  "psychoticSymptomDays now ms =
     length (filter (\<lambda>entry. length (psychoticSymptoms entry) > 0) (recentMoodEntries now ms))"

text \<open>
  The alert cards of the section \<^verbatim>\<open>Peringatan Kesehatan\<close>, in the order of the
  markup; each \<^verbatim>\<open>{condition && <div>..</div>}\<close> contributes its card when the
  condition holds. The card of the psychotic symptoms shows the count.
\<close>

datatype Alert =
    LowMood
  | HighAnxiety
  | SleepDeficit
  | LowAdherence
  | PsychoticSymptoms nat
  | AllClear
  | NoData

definition healthAlerts :: "int \<Rightarrow> JournalEntry list \<Rightarrow> MoodEntry list \<Rightarrow> Alert list" where
  "healthAlerts now js ms =
     (if avgMood now ms < 4 then [LowMood] else [])
     @ (if avgAnxiety now ms > 7 then [HighAnxiety] else [])
     @ (if avgSleep now js < 6 then [SleepDeficit] else [])
     @ (if medicationAdherence now js < 80 \<and> totalMeds now js > 0 then [LowAdherence] else [])
     @ (if psychoticSymptomDays now ms > 3
        then [PsychoticSymptoms (psychoticSymptomDays now ms)] else [])
     @ (if avgMood now ms \<ge> 7 \<and> avgAnxiety now ms \<le> 3 \<and> avgSleep now js \<ge> 7
           \<and> medicationAdherence now js \<ge> 90
        then [AllClear] else [])
     @ (if avgMood now ms = 0 \<and> avgAnxiety now ms = 0 \<and> length (recentMoodEntries now ms) = 0
        then [NoData] else [])"


text \<open>
  Today's mood entries: the filter callback formats every entry's timestamp with
  \<^verbatim>\<open>toISOString\<close>, so the first invalid timestamp throws.
\<close>

fun todayMoodEntries :: "string \<Rightarrow> MoodEntry list \<Rightarrow> error + MoodEntry list" where
  "todayMoodEntries today [] = Inr []"
| "todayMoodEntries today (entry # rest) =
     (case toISODate (timestamp entry) of
        Inl e \<Rightarrow> Inl e
      | Inr entryDate \<Rightarrow>
          (case todayMoodEntries today rest of
             Inl e \<Rightarrow> Inl e
           | Inr found \<Rightarrow> Inr (if entryDate = today then entry # found else found)))"

definition getLatestMood :: "MoodEntry list \<Rightarrow> MoodEntry option" where
  "getLatestMood todays = (if length todays > 0 then Some (todays ! (length todays - 1)) else None)"

text \<open>What the component computes before rendering, or the exception it throws.\<close>

record DashboardView =
  todayJournal :: "JournalEntry option"
  latestMood :: "MoodEntry option"
  shownMood :: real
  shownAnxiety :: real
  shownEnergy :: real
  shownStress :: real
  shownSleep :: real
  shownStudy :: real
  shownAdherence :: real
  shownTotalMeds :: nat
  alerts :: "Alert list"

definition Dashboard :: "int \<Rightarrow> JournalEntry list \<Rightarrow> MoodEntry list \<Rightarrow> error + DashboardView" where
  "Dashboard now js ms =
     (let today = isoDate now
      in case todayMoodEntries today ms of
           Inl e \<Rightarrow> Inl e
         | Inr todays \<Rightarrow>
             Inr \<lparr>todayJournal = find (\<lambda>entry. date entry = today) js,
                  latestMood = getLatestMood todays,
                  shownMood = avgMood now ms,
                  shownAnxiety = avgAnxiety now ms,
                  shownEnergy = avgEnergy now ms,
                  shownStress = avgStress now ms,
                  shownSleep = avgSleep now js,
                  shownStudy = avgStudy now js,
                  shownAdherence = medicationAdherence now js,
                  shownTotalMeds = totalMeds now js,
                  alerts = healthAlerts now js ms\<rparr>)"


section \<open>The analytics: grouping by date and trailing windows\<close>

text \<open>
  \<^verbatim>\<open>moodByDate\<close> is an object used as a dictionary; \<^verbatim>\<open>Object.entries\<close>
  lists its keys in insertion order, so it is an association list. One step of the
  \<^verbatim>\<open>reduce\<close>: create the empty group when the key is missing, then push (the
  source's variable \<^verbatim>\<open>date\<close> is \<open>day\<close> here, \<open>date\<close> being the journal field).
\<close>

definition groupPush :: "(string \<times> 'a list) list \<Rightarrow> string \<Rightarrow> 'a \<Rightarrow> (string \<times> 'a list) list" where
  "groupPush acc day entry =
     (let acc1 = (if map_of acc day = None then acc @ [(day, [])] else acc)
      in map (\<lambda>(k, g). if k = day then (k, g @ [entry]) else (k, g)) acc1)"

fun moodByDateFrom ::
    "(string \<times> MoodEntry list) list \<Rightarrow> MoodEntry list \<Rightarrow> error + (string \<times> MoodEntry list) list" where
  "moodByDateFrom acc [] = Inr acc"
| "moodByDateFrom acc (entry # rest) =
     (case toISODate (timestamp entry) of
        Inl e \<Rightarrow> Inl e
      | Inr day \<Rightarrow> moodByDateFrom (groupPush acc day entry) rest)"

definition moodByDate :: "MoodEntry list \<Rightarrow> error + (string \<times> MoodEntry list) list" where
  "moodByDate ms = moodByDateFrom [] ms"

text \<open>
  \<^verbatim>\<open>Array.prototype.sort\<close> with a comparison function: the sort is stable, and a
  comparison result \<^verbatim>\<open>NaN\<close> (here \<open>None\<close>) counts as \<open>+0\<close>. For a consistent
  comparison function every engine returns the list computed here.
\<close>

definition notAfter :: "int option \<Rightarrow> bool" where
  "notAfter v = (case v of None \<Rightarrow> True | Some d \<Rightarrow> d \<le> 0)"

fun insertJS :: "('a \<Rightarrow> 'a \<Rightarrow> int option) \<Rightarrow> 'a \<Rightarrow> 'a list \<Rightarrow> 'a list" where
  "insertJS cmp x [] = [x]"
| "insertJS cmp x (y # ys) =
     (if notAfter (cmp x y) then x # y # ys else y # insertJS cmp x ys)"

definition sortJS :: "('a \<Rightarrow> 'a \<Rightarrow> int option) \<Rightarrow> 'a list \<Rightarrow> 'a list" where
  "sortJS cmp xs = foldr (insertJS cmp) xs []"

text \<open>\<^verbatim>\<open>new Date(a).getTime() - new Date(b).getTime()\<close>\<close>

definition dateDiff :: "string \<Rightarrow> string \<Rightarrow> int option" where
  "dateDiff a b =
     (case (Date_parse a, Date_parse b) of (Some x, Some y) \<Rightarrow> Some (x - y) | _ \<Rightarrow> None)"

text \<open>\<^verbatim>\<open>xs.slice(-n)\<close>: the last \<open>n\<close> elements, all of them when there are fewer.\<close>

definition sliceLast :: "nat \<Rightarrow> 'a list \<Rightarrow> 'a list" where
  "sliceLast n xs = drop (length xs - n) xs"

text \<open>\<^verbatim>\<open>Math.round\<close>: the nearest integer, the larger one on a tie.\<close>

definition Math_round :: "real \<Rightarrow> int" where
  "Math_round x = \<lfloor>x + 1 / 2\<rfloor>"





text \<open>
  The mood trend: the groups sorted by their date key, the last thirty of them, one row
  each with the means rounded to one decimal by \<^verbatim>\<open>Math.round(x * 10) / 10\<close>. The
  mean of a group divides by its length without a test; a group is never empty, each
  being created for the entry pushed into it. As for the medication chart, the row keeps
  the date key and leaves its rendering as a label out.
\<close>

record MoodTrendRow =
  trendDate :: string
  trendMood :: real
  trendAnxiety :: real
  trendEnergy :: real
  trendStress :: real
  trendCount :: nat

definition groupMean :: "('a \<Rightarrow> real) \<Rightarrow> 'a list \<Rightarrow> real" where
  "groupMean field entries =
     foldl (\<lambda>sum entry. sum + field entry) 0 entries / real (length entries)"

definition roundTenth :: "real \<Rightarrow> real" where
  "roundTenth x = of_int (Math_round (x * 10)) / 10"

definition moodTrendRow :: "string \<times> MoodEntry list \<Rightarrow> MoodTrendRow" where
  "moodTrendRow dated =
     (case dated of (day, entries) \<Rightarrow>
        \<lparr>trendDate = day,
         trendMood = roundTenth (groupMean mood entries),
         trendAnxiety = roundTenth (groupMean anxiety entries),
         trendEnergy = roundTenth (groupMean energy entries),
         trendStress = roundTenth (groupMean stress entries),
         trendCount = length entries\<rparr>)"

definition moodTrendData :: "MoodEntry list \<Rightarrow> error + MoodTrendRow list" where
  "moodTrendData ms =
     (case moodByDate ms of
        Inl e \<Rightarrow> Inl e
      | Inr groups \<Rightarrow>
          Inr (map moodTrendRow
                (sliceLast 30 (sortJS (\<lambda>a b. dateDiff (fst a) (fst b)) groups))))"


section \<open>Notions used in the statements\<close>

text \<open>
  The value of \<^verbatim>\<open>acc[day]\<close>, empty when the key is missing; the order of two
  date strings by the instants they denote; the instant of a journal entry's date.
\<close>

definition groupOf :: "(string \<times> 'a list) list \<Rightarrow> string \<Rightarrow> 'a list" where
  "groupOf acc day = (case map_of acc day of None \<Rightarrow> [] | Some g \<Rightarrow> g)"




section \<open>Example entries\<close>

text \<open>
  Entries for the concrete scenarios below: a journal entry with an id and a date, five
  hours of sleep and no medication; a mood sample with an id, a timestamp, an anxiety
  score and a list of symptoms, every other score at the mood tracker's default of five.
\<close>

definition journalOn :: "string \<Rightarrow> string \<Rightarrow> JournalEntry" where
  "journalOn i d =
     \<lparr>id_journal = i, date = d, medications = [], sleepHours = 5, sleepQuality = 5,
      studyHours = 0, studySubjects = [], clinicalRotation = [], journalText = [],
      gratitude = [], goals = [], wellness = [], challenges = [], learnings = []\<rparr>"

definition moodAt :: "string \<Rightarrow> string \<Rightarrow> real \<Rightarrow> string list \<Rightarrow> MoodEntry" where
  "moodAt i t a symptoms =
     \<lparr>id_mood = i, timestamp = t, mood = 5, anxiety = a, energy = 5, stress = 5,
      psychoticSymptoms = symptoms, triggers = [], notes' = [], location = Some [],
      weather = Some []\<rparr>"

text \<open>The moment of the scenarios: 2024-03-07, 12:00 UTC.\<close>

definition noon7March :: int where
  "noon7March = 1709812800000"

text \<open>
  A storage whose journal value is not JSON while its mood value is, with parsers that
  decode exactly the values of the example.
\<close>

definition brokenJournalStorage :: "string \<Rightarrow> string option" where
  "brokenJournalStorage key =
     (if key = ''journalEntries'' then Some ''[{''
      else if key = ''moodEntries'' then Some ''[m]'' else None)"

definition parseJournalExample :: "string \<Rightarrow> error + JournalEntry list" where
  "parseJournalExample text = (if text = ''[]'' then Inr [] else Inl SyntaxError)"

definition parseMoodExample :: "string \<Rightarrow> error + MoodEntry list" where
  "parseMoodExample text =
     (if text = ''[m]'' then Inr [moodAt ''m'' ''2024-03-05T08:00:00.000Z'' 5 []]
      else Inl SyntaxError)"



text \<open>Seven journal entries, 2024-03-01 to 2024-03-07, five hours of sleep each.\<close>

definition sleepWeek :: "JournalEntry list" where
  "sleepWeek =
     [journalOn ''j1'' ''2024-03-01'', journalOn ''j2'' ''2024-03-02'',
      journalOn ''j3'' ''2024-03-03'', journalOn ''j4'' ''2024-03-04'',
      journalOn ''j5'' ''2024-03-05'', journalOn ''j6'' ''2024-03-06'',
      journalOn ''j7'' ''2024-03-07'']"

text \<open>Four mood samples of one day, each reporting a symptom.\<close>

definition symptomsOneDay :: "MoodEntry list" where
  "symptomsOneDay =
     [moodAt ''m1'' ''2024-03-05T08:00:00.000Z'' 5 [''Halusinasi pendengaran''],
      moodAt ''m2'' ''2024-03-05T12:00:00.000Z'' 5 [''Halusinasi pendengaran''],
      moodAt ''m3'' ''2024-03-05T16:00:00.000Z'' 5 [''Paranoia''],
      moodAt ''m4'' ''2024-03-05T20:00:00.000Z'' 5 [''Paranoia'']]"





definition tenDaysOfSamples :: "MoodEntry list" where
  "tenDaysOfSamples =
     [moodAt ''m1'' ''2024-03-01T08:00:00.000Z'' 5 [], moodAt ''m2'' ''2024-03-02T08:00:00.000Z'' 5 [],
      moodAt ''m3'' ''2024-03-03T08:00:00.000Z'' 5 [], moodAt ''m4'' ''2024-03-04T08:00:00.000Z'' 5 [],
      moodAt ''m5'' ''2024-03-05T08:00:00.000Z'' 5 [], moodAt ''m6'' ''2024-03-06T08:00:00.000Z'' 5 [],
      moodAt ''m7'' ''2024-03-07T08:00:00.000Z'' 5 [], moodAt ''m8'' ''2024-03-08T08:00:00.000Z'' 5 [],
      moodAt ''m9'' ''2024-03-09T08:00:00.000Z'' 5 [], moodAt ''m10'' ''2024-03-10T08:00:00.000Z'' 5 []]"


section \<open>The symptom-day count in the words of the specification\<close>

text \<open>
  The specification counts the distinct calendar days of the window that have at least
  one entry with a non-empty \<^verbatim>\<open>psychoticSymptoms\<close>. The day of an entry is the
  date key the components use, the \<^verbatim>\<open>toISOString\<close> date of its timestamp. This
  definition follows the specification, not the source; the source's count is
  \<open>psychoticSymptomDays\<close> above.
\<close>

definition symptomDaysDistinct :: "int \<Rightarrow> MoodEntry list \<Rightarrow> nat" where
  "symptomDaysDistinct now ms =
     length (remdups (map (\<lambda>entry. map_option isoDate (Date_parse (timestamp entry)))
       (filter (\<lambda>entry. psychoticSymptoms entry \<noteq> []) (recentMoodEntries now ms))))"


section \<open>Properties of the store\<close>

lemma findIndex_ge_minus_one: "- 1 \<le> findIndex p xs"
  by (induction xs) (auto simp: Let_def)

lemma findIndex_none: "(findIndex p xs < 0) = (\<forall>x \<in> set xs. \<not> p x)"
proof (induction xs)
  case Nil
  show ?case by simp
next
  case (Cons x xs)
  have "- 1 \<le> findIndex p xs" by (rule findIndex_ge_minus_one)
  with Cons show ?case by (auto simp: Let_def)
qed

lemma findIndex_first:
  assumes "i < length xs" and "p (xs ! i)" and "\<forall>j < i. \<not> p (xs ! j)"
  shows "findIndex p xs = int i"
  using assms
proof (induction xs arbitrary: i)
  case Nil
  then show ?case by simp
next
  case (Cons x xs)
  show ?case
  proof (cases i)
    case 0
    with Cons.prems show ?thesis by simp
  next
    case (Suc k)
    with Cons.prems have k: "k < length xs" "p (xs ! k)" by simp_all
    from Cons.prems Suc have nx: "\<not> p x" by auto
    have "\<forall>j < k. \<not> p (xs ! j)"
    proof (intro allI impI)
      fix j assume "j < k"
      then have "Suc j < i" using Suc by simp
      with Cons.prems have "\<not> p ((x # xs) ! Suc j)" by blast
      then show "\<not> p (xs ! j)" by simp
    qed
    with Cons.IH k have "findIndex p xs = int k" by blast
    with nx Suc show ?thesis by (simp add: Let_def)
  qed
qed

lemma upsert_at_first:
  assumes "i < length xs" and "ident (xs ! i) = ident e"
    and "\<forall>j < i. ident (xs ! j) \<noteq> ident e"
  shows "upsert ident xs e = xs[i := e]"
proof -
  have "findIndex (\<lambda>x. ident x = ident e) xs = int i"
    using assms by (intro findIndex_first) auto
  then show ?thesis by (simp add: upsert_def)
qed

lemma upsert_fresh:
  assumes "ident e \<notin> ident ` set xs"
  shows "upsert ident xs e = xs @ [e]"
proof -
  have "\<forall>x \<in> set xs. \<not> ident x = ident e" using assms by (metis imageI)
  then have "findIndex (\<lambda>x. ident x = ident e) xs < 0"
    by (simp add: findIndex_none)
  then show ?thesis by (simp add: upsert_def)
qed

lemma first_match_exists:
  assumes "a \<in> ident ` set xs"
  shows "\<exists>i < length xs. ident (xs ! i) = a \<and> (\<forall>j < i. ident (xs ! j) \<noteq> a)"
proof -
  let ?P = "\<lambda>i. i < length xs \<and> ident (xs ! i) = a"
  from assms obtain k where "?P k" by (auto simp: in_set_conv_nth)
  then have least: "?P (LEAST i. ?P i)" by (rule LeastI)
  have "\<forall>j < (LEAST i. ?P i). ident (xs ! j) \<noteq> a"
  proof (intro allI impI)
    fix j assume j: "j < (LEAST i. ?P i)"
    then have "\<not> ?P j" by (rule not_less_Least)
    moreover from j least have "j < length xs" by simp
    ultimately show "ident (xs ! j) \<noteq> a" by simp
  qed
  with least show ?thesis by blast
qed

lemma upsert_distinct:
  assumes "distinct (map ident xs)" and "i < length xs" and "ident (xs ! i) = ident e"
  shows "upsert ident xs e = xs[i := e]"
proof (rule upsert_at_first[OF assms(2,3)], intro allI impI)
  fix j assume "j < i"
  with assms(2) have "j < length xs" "j \<noteq> i" by simp_all
  with assms(1,2) have "map ident xs ! j \<noteq> map ident xs ! i"
    using nth_eq_iff_index_eq[of "map ident xs" j i] by simp
  with \<open>j < length xs\<close> assms(2,3) show "ident (xs ! j) \<noteq> ident e" by simp
qed

text \<open>
  Claim C1. Upserting an entry whose id is the id of an existing entry replaces that
  entry at its index and leaves every other position as it was; upserting an entry with
  a fresh id appends it at the end. The index is the first one carrying the id, which
  is the only one when the ids of the store are distinct. Both save handlers store the
  result of this upsert in their own collection.
\<close>

theorem upsert_replaces_in_place_or_appends:
  fixes ident :: "'a \<Rightarrow> string"
  shows "(i < length xs \<and> ident (xs ! i) = ident e \<and> (\<forall>j < i. ident (xs ! j) \<noteq> ident e)
            \<longrightarrow> upsert ident xs e = xs[i := e])
       \<and> (distinct (map ident xs) \<and> i < length xs \<and> ident (xs ! i) = ident e
            \<longrightarrow> upsert ident xs e = xs[i := e])
       \<and> (ident e \<notin> ident ` set xs \<longrightarrow> upsert ident xs e = xs @ [e])
       \<and> journalEntries (handleSaveJournalEntry s j) = upsert id_journal (journalEntries s) j
       \<and> moodEntries (handleSaveMoodEntry s m) = upsert id_mood (moodEntries s) m"
  using upsert_at_first[of i xs ident e] upsert_distinct[of ident xs i e] upsert_fresh[of ident e xs]
  by (simp add: handleSaveJournalEntry_def handleSaveMoodEntry_def)

text \<open>
  The scenario of the specification: ids A, B, C in this order, then a modified B; and
  a mood entry with a fresh id.
\<close>

theorem upsert_replaces_in_place_or_appends_witness:
  "journalEntries (handleSaveJournalEntry
      (initialState\<lparr>journalEntries :=
         [journalOn ''A'' ''2024-01-01'', journalOn ''B'' ''2024-01-02'', journalOn ''C'' ''2024-01-03'']\<rparr>)
      ((journalOn ''B'' ''2024-01-02'')\<lparr>sleepHours := 8\<rparr>))
   = [journalOn ''A'' ''2024-01-01'', (journalOn ''B'' ''2024-01-02'')\<lparr>sleepHours := 8\<rparr>,
      journalOn ''C'' ''2024-01-03'']
   \<and> moodEntries (handleSaveMoodEntry
      (initialState\<lparr>moodEntries := [moodAt ''A'' ''2024-01-01T08:00:00.000Z'' 5 []]\<rparr>)
      (moodAt ''D'' ''2024-01-01T09:00:00.000Z'' 6 []))
   = [moodAt ''A'' ''2024-01-01T08:00:00.000Z'' 5 [], moodAt ''D'' ''2024-01-01T09:00:00.000Z'' 6 []]"
proof -
  let ?A = "journalOn ''A'' ''2024-01-01''" and ?B = "journalOn ''B'' ''2024-01-02''"
  and ?C = "journalOn ''C'' ''2024-01-03''"
  let ?B' = "?B\<lparr>sleepHours := 8\<rparr>"
  let ?s = "initialState\<lparr>journalEntries := [?A, ?B, ?C]\<rparr>"
  let ?M = "moodAt ''A'' ''2024-01-01T08:00:00.000Z'' 5 []"
  let ?D = "moodAt ''D'' ''2024-01-01T09:00:00.000Z'' 6 []"
  let ?t = "initialState\<lparr>moodEntries := [?M]\<rparr>"
  note inst1 = upsert_replaces_in_place_or_appends[of 1 "[?A, ?B, ?C]" id_journal ?B' ?s ?B' ?D]
  note inst2 = upsert_replaces_in_place_or_appends[of 0 "[?M]" id_mood ?D ?t ?B' ?D]
  have "upsert id_journal [?A, ?B, ?C] ?B' = [?A, ?B, ?C][1 := ?B']"
    using inst1 by (simp add: journalOn_def)
  moreover have "upsert id_mood [?M] ?D = [?M] @ [?D]"
    using inst2 by (simp add: moodAt_def)
  ultimately show ?thesis using inst1 inst2 by simp
qed

text \<open>
  Claim C8. Upsert is idempotent: saving the same entry twice leaves the collection,
  and the whole state, as saving it once does.
\<close>

theorem upsert_idempotent:
  "upsert ident (upsert ident xs e) e = upsert ident xs e
   \<and> handleSaveJournalEntry (handleSaveJournalEntry s j) j = handleSaveJournalEntry s j
   \<and> handleSaveMoodEntry (handleSaveMoodEntry s m) m = handleSaveMoodEntry s m"
proof -
  have gen: "upsert ident (upsert ident xs e) e = upsert ident xs e"
    for ident :: "'b \<Rightarrow> string" and xs e
  proof (cases "ident e \<in> ident ` set xs")
    case True
    then obtain i where i: "i < length xs" "ident (xs ! i) = ident e"
      "\<forall>j < i. ident (xs ! j) \<noteq> ident e"
      using first_match_exists[of "ident e" ident xs] by blast
    then have once: "upsert ident xs e = xs[i := e]" by (rule upsert_at_first)
    have "upsert ident (xs[i := e]) e = (xs[i := e])[i := e]"
      using i by (intro upsert_at_first) simp_all
    with once show ?thesis by simp
  next
    case False
    then have once: "upsert ident xs e = xs @ [e]" by (rule upsert_fresh)
    have "ident (xs ! j) \<noteq> ident e" if "j < length xs" for j
      using False that by (metis imageI nth_mem)
    then have "\<forall>j < length xs. ident ((xs @ [e]) ! j) \<noteq> ident e"
      by (simp add: nth_append)
    then have "upsert ident (xs @ [e]) e = (xs @ [e])[length xs := e]"
      by (intro upsert_at_first) simp_all
    with once show ?thesis by simp
  qed
  show ?thesis
    by (simp add: handleSaveJournalEntry_def handleSaveMoodEntry_def gen)
qed

text \<open>
  Claim C10. Saving a journal entry leaves the mood entries unchanged, and saving a mood
  entry leaves the journal entries unchanged; neither touches the selected date, and
  saving a mood entry does not switch the tab.
\<close>

theorem save_frame:
  "moodEntries (handleSaveJournalEntry s j) = moodEntries s
   \<and> selectedDate (handleSaveJournalEntry s j) = selectedDate s
   \<and> journalEntries (handleSaveMoodEntry s m) = journalEntries s
   \<and> selectedDate (handleSaveMoodEntry s m) = selectedDate s
   \<and> activeTab (handleSaveMoodEntry s m) = activeTab s"
  by (simp add: handleSaveJournalEntry_def handleSaveMoodEntry_def)

section \<open>Properties of the load effect\<close>

lemma loadKey_value:
  "fst (loadKey parse saved msg) =
     (case saved of None \<Rightarrow> None
      | Some text \<Rightarrow> if text = [] then None
                     else (case parse text of Inr v \<Rightarrow> Some v | Inl err \<Rightarrow> None))"
  by (simp add: loadKey_def split: option.splits sum.splits)

lemma loadKey_failure:
  "saved = Some text \<Longrightarrow> text \<noteq> [] \<Longrightarrow> parse text = Inl err \<Longrightarrow>
     loadKey parse saved msg = (None, [msg])"
  by (simp add: loadKey_def)

lemma mount_journalEntries:
  "journalEntries (fst (mount parseJournal parseMood localStorage)) =
     (case fst (loadKey parseJournal (localStorage ''journalEntries'') ''Error loading journal entries:'') of
        None \<Rightarrow> [] | Some v \<Rightarrow> v)"
  by (simp add: mount_def loadEntries_def initialState_def Let_def split: prod.splits option.splits)

lemma mount_moodEntries:
  "moodEntries (fst (mount parseJournal parseMood localStorage)) =
     (case fst (loadKey parseMood (localStorage ''moodEntries'') ''Error loading mood entries:'') of
        None \<Rightarrow> [] | Some v \<Rightarrow> v)"
  by (simp add: mount_def loadEntries_def initialState_def Let_def split: prod.splits option.splits)

lemma mount_console:
  "snd (mount parseJournal parseMood localStorage) =
     snd (loadKey parseJournal (localStorage ''journalEntries'') ''Error loading journal entries:'')
     @ snd (loadKey parseMood (localStorage ''moodEntries'') ''Error loading mood entries:'')"
  by (simp add: mount_def loadEntries_def Let_def split: prod.splits)

text \<open>
  Claim C9. On load, when the value stored under either key does not decode, nothing is
  thrown: the failure is written to the console and that collection is the empty one,
  and each collection is determined by its own key and parser alone, so the other one
  loads independently.
\<close>

theorem load_decode_failure_falls_back:
  "(localStorage ''journalEntries'' = Some text \<and> text \<noteq> [] \<and> parseJournal text = Inl err
      \<longrightarrow> journalEntries (fst (mount parseJournal parseMood localStorage)) = []
          \<and> ''Error loading journal entries:'' \<in> set (snd (mount parseJournal parseMood localStorage)))
   \<and> (localStorage ''moodEntries'' = Some text \<and> text \<noteq> [] \<and> parseMood text = Inl err
      \<longrightarrow> moodEntries (fst (mount parseJournal parseMood localStorage)) = []
          \<and> ''Error loading mood entries:'' \<in> set (snd (mount parseJournal parseMood localStorage)))
   \<and> journalEntries (fst (mount parseJournal parseMood localStorage)) =
       (case localStorage ''journalEntries'' of
          None \<Rightarrow> []
        | Some saved \<Rightarrow> if saved = [] then []
                       else (case parseJournal saved of Inr v \<Rightarrow> v | Inl e \<Rightarrow> []))
   \<and> moodEntries (fst (mount parseJournal parseMood localStorage)) =
       (case localStorage ''moodEntries'' of
          None \<Rightarrow> []
        | Some saved \<Rightarrow> if saved = [] then []
                       else (case parseMood saved of Inr v \<Rightarrow> v | Inl e \<Rightarrow> []))"
proof -
  have j: "localStorage ''journalEntries'' = Some text \<and> text \<noteq> [] \<and> parseJournal text = Inl err
      \<longrightarrow> journalEntries (fst (mount parseJournal parseMood localStorage)) = []
          \<and> ''Error loading journal entries:'' \<in> set (snd (mount parseJournal parseMood localStorage))"
    by (simp add: mount_journalEntries mount_console loadKey_failure)
  have m: "localStorage ''moodEntries'' = Some text \<and> text \<noteq> [] \<and> parseMood text = Inl err
      \<longrightarrow> moodEntries (fst (mount parseJournal parseMood localStorage)) = []
          \<and> ''Error loading mood entries:'' \<in> set (snd (mount parseJournal parseMood localStorage))"
    by (simp add: mount_moodEntries mount_console loadKey_failure)
  have jv: "journalEntries (fst (mount parseJournal parseMood localStorage)) =
       (case localStorage ''journalEntries'' of
          None \<Rightarrow> []
        | Some saved \<Rightarrow> if saved = [] then []
                       else (case parseJournal saved of Inr v \<Rightarrow> v | Inl e \<Rightarrow> []))"
    by (simp add: mount_journalEntries loadKey_value split: option.splits sum.splits)
  have mv: "moodEntries (fst (mount parseJournal parseMood localStorage)) =
       (case localStorage ''moodEntries'' of
          None \<Rightarrow> []
        | Some saved \<Rightarrow> if saved = [] then []
                       else (case parseMood saved of Inr v \<Rightarrow> v | Inl e \<Rightarrow> []))"
    by (simp add: mount_moodEntries loadKey_value split: option.splits sum.splits)
  from j m jv mv show ?thesis by blast
qed

text \<open>The journal value is broken, the mood value decodes.\<close>

theorem load_decode_failure_falls_back_witness:
  "journalEntries (fst (mount parseJournalExample parseMoodExample brokenJournalStorage)) = []
   \<and> ''Error loading journal entries:''
       \<in> set (snd (mount parseJournalExample parseMoodExample brokenJournalStorage))
   \<and> moodEntries (fst (mount parseJournalExample parseMoodExample brokenJournalStorage))
       = [moodAt ''m'' ''2024-03-05T08:00:00.000Z'' 5 []]"
  using load_decode_failure_falls_back
    [of brokenJournalStorage "''[{''" parseJournalExample SyntaxError parseMoodExample]
  by (simp add: brokenJournalStorage_def parseJournalExample_def parseMoodExample_def)


section \<open>Properties of the aggregates\<close>

lemma foldl_plus_sum_list:
  fixes a :: "'b::comm_monoid_add"
  shows "foldl (\<lambda>sum entry. sum + f entry) a xs = a + sum_list (map f xs)"
  by (induction xs arbitrary: a) (simp_all add: add.assoc)

lemma rollingMean_sum_list:
  "rollingMean field recent =
     (if recent = [] then 0 else sum_list (map field recent) / real (length recent))"
  by (simp add: rollingMean_def foldl_plus_sum_list)

lemma totalMeds_sum_list:
  "totalMeds now js = sum_list (map (\<lambda>e. length (medications e)) (recentJournalEntries now js))"
  by (simp add: totalMeds_def foldl_plus_sum_list)

lemma takenMeds_sum_list:
  "takenMeds now js =
     sum_list (map (\<lambda>e. length (filter taken (medications e))) (recentJournalEntries now js))"
  by (simp add: takenMeds_def foldl_plus_sum_list)

lemma takenMeds_le_totalMeds: "takenMeds now js \<le> totalMeds now js"
  unfolding takenMeds_sum_list totalMeds_sum_list
  by (rule sum_list_mono) simp

lemma medicationAdherence_bounds:
  "0 \<le> medicationAdherence now js \<and> medicationAdherence now js \<le> 100"
proof (cases "totalMeds now js > 0")
  case True
  define q where "q = real (takenMeds now js) / real (totalMeds now js)"
  have "real (takenMeds now js) \<le> real (totalMeds now js)"
    using takenMeds_le_totalMeds[of now js] by simp
  with True have "q \<le> 1" "0 \<le> q"
    by (simp_all add: q_def divide_le_eq_1)
  then have "0 \<le> q * 100 \<and> q * 100 \<le> 100" by simp
  moreover have "medicationAdherence now js = q * 100"
    using True by (simp add: medicationAdherence_def q_def)
  ultimately show ?thesis by simp
next
  case False
  then show ?thesis by (simp add: medicationAdherence_def)
qed

text \<open>The dates and timestamps of the examples, evaluated.\<close>

lemma parse_march:
  "Date_parse ''2024-03-01'' = Some 1709251200000"
  "Date_parse ''2024-03-02'' = Some 1709337600000"
  "Date_parse ''2024-03-03'' = Some 1709424000000"
  "Date_parse ''2024-03-04'' = Some 1709510400000"
  "Date_parse ''2024-03-05'' = Some 1709596800000"
  "Date_parse ''2024-03-06'' = Some 1709683200000"
  "Date_parse ''2024-03-07'' = Some 1709769600000"
  by code_simp+

lemma parse_samples:
  "Date_parse ''2024-03-07T12:00:00.000Z'' = Some noon7March"
  "Date_parse ''2024-03-05T08:00:00.000Z'' = Some 1709625600000"
  "Date_parse ''2024-03-05T12:00:00.000Z'' = Some 1709640000000"
  "Date_parse ''2024-03-05T16:00:00.000Z'' = Some 1709654400000"
  "Date_parse ''2024-03-05T20:00:00.000Z'' = Some 1709668800000"
  "Date_parse ''2024-02-01T08:00:00.000Z'' = Some 1706774400000"
  by code_simp+

lemma isoDate_samples:
  "isoDate 1709625600000 = ''2024-03-05''"
  "isoDate 1709640000000 = ''2024-03-05''"
  "isoDate 1709654400000 = ''2024-03-05''"
  "isoDate 1709668800000 = ''2024-03-05''"
  by code_simp+

text \<open>
  Claim C6. Aggregation over nothing does not raise and gives zero: the adherence is 0
  when the medication count of the window is 0, in particular for the empty collection;
  every rolling mean over zero entries of the window is 0; the adherence lies between 0
  and 100; and the dashboard of the empty collections is computed, with all aggregates 0.
\<close>

theorem empty_aggregates_are_zero:
  "(totalMeds now js = 0 \<longrightarrow> medicationAdherence now js = 0)
   \<and> medicationAdherence now [] = 0
   \<and> rollingMean field [] = 0
   \<and> (recentMoodEntries now ms = [] \<longrightarrow>
        avgMood now ms = 0 \<and> avgAnxiety now ms = 0 \<and> avgEnergy now ms = 0 \<and> avgStress now ms = 0)
   \<and> (recentJournalEntries now js = [] \<longrightarrow> avgSleep now js = 0 \<and> avgStudy now js = 0)
   \<and> 0 \<le> medicationAdherence now js \<and> medicationAdherence now js \<le> 100
   \<and> (\<exists>v. Dashboard now [] [] = Inr v
          \<and> shownMood v = 0 \<and> shownAnxiety v = 0 \<and> shownEnergy v = 0 \<and> shownStress v = 0
          \<and> shownSleep v = 0 \<and> shownStudy v = 0 \<and> shownAdherence v = 0 \<and> shownTotalMeds v = 0)"
proof -
  have a: "totalMeds now js = 0 \<longrightarrow> medicationAdherence now js = 0"
    by (simp add: medicationAdherence_def)
  have b: "medicationAdherence now [] = 0"
    by (simp add: medicationAdherence_def totalMeds_def recentJournalEntries_def)
  have c: "rollingMean field [] = 0" by (simp add: rollingMean_def)
  have d: "recentMoodEntries now ms = [] \<longrightarrow>
        avgMood now ms = 0 \<and> avgAnxiety now ms = 0 \<and> avgEnergy now ms = 0 \<and> avgStress now ms = 0"
    by (simp add: avgMood_def avgAnxiety_def avgEnergy_def avgStress_def rollingMean_def)
  have e: "recentJournalEntries now js = [] \<longrightarrow> avgSleep now js = 0 \<and> avgStudy now js = 0"
    by (simp add: avgSleep_def avgStudy_def rollingMean_def)
  have f: "\<exists>v. Dashboard now [] [] = Inr v
          \<and> shownMood v = 0 \<and> shownAnxiety v = 0 \<and> shownEnergy v = 0 \<and> shownStress v = 0
          \<and> shownSleep v = 0 \<and> shownStudy v = 0 \<and> shownAdherence v = 0 \<and> shownTotalMeds v = 0"
    by (simp add: Dashboard_def avgMood_def avgAnxiety_def avgEnergy_def avgStress_def
        avgSleep_def avgStudy_def rollingMean_def medicationAdherence_def totalMeds_def
        recentJournalEntries_def recentMoodEntries_def)
  from a b c d e f medicationAdherence_bounds[of now js] show ?thesis by blast
qed

text \<open>
  A journal entry without medication; a mood sample older than the window; no journal
  entry at all.
\<close>

theorem empty_aggregates_are_zero_witness:
  "medicationAdherence noon7March [journalOn ''a'' ''2024-03-05''] = 0
   \<and> avgMood noon7March [moodAt ''m'' ''2024-02-01T08:00:00.000Z'' 9 []] = 0
   \<and> avgAnxiety noon7March [moodAt ''m'' ''2024-02-01T08:00:00.000Z'' 9 []] = 0
   \<and> avgSleep noon7March [] = 0"
proof -
  let ?js = "[journalOn ''a'' ''2024-03-05'']"
  let ?ms = "[moodAt ''m'' ''2024-02-01T08:00:00.000Z'' 9 []]"
  have noMeds: "totalMeds noon7March ?js = 0"
    by (simp add: totalMeds_def recentJournalEntries_def journalOn_def)
  have old: "recentMoodEntries noon7March ?ms = []"
    by (simp add: recentMoodEntries_def moodAt_def parse_samples notBefore_def weekAgo_def
        noon7March_def msPerDay_def)
  have none: "recentJournalEntries noon7March [] = []"
    by (simp add: recentJournalEntries_def)
  note week = empty_aggregates_are_zero
    [where now = noon7March and js = ?js and ms = ?ms and field = mood]
  note noEntries = empty_aggregates_are_zero
    [where now = noon7March and js = "[]" and ms = ?ms and field = mood]
  from week noMeds have "medicationAdherence noon7March ?js = 0" by blast
  moreover from week old
  have "avgMood noon7March ?ms = 0 \<and> avgAnxiety noon7March ?ms = 0" by blast
  moreover from noEntries none have "avgSleep noon7March [] = 0" by blast
  ultimately show ?thesis by blast
qed


section \<open>Properties of the alerts\<close>

lemma todayMoodEntries_valid:
  assumes "\<forall>e \<in> set ms. Date_parse (timestamp e) \<noteq> None"
  shows "\<exists>todays. todayMoodEntries today ms = Inr todays"
  using assms
proof (induction ms)
  case Nil
  show ?case by simp
next
  case (Cons entry rest)
  then obtain t where "Date_parse (timestamp entry) = Some t" by auto
  then have "toISODate (timestamp entry) = Inr (isoDate t)" by (simp add: toISODate_def)
  moreover from Cons obtain found where "todayMoodEntries today rest = Inr found" by auto
  ultimately show ?case by simp
qed

lemma Dashboard_renders:
  assumes "\<forall>e \<in> set ms. Date_parse (timestamp e) \<noteq> None"
  shows "\<exists>v. Dashboard now js ms = Inr v"
proof -
  from todayMoodEntries_valid[OF assms]
  obtain todays where "todayMoodEntries (isoDate now) ms = Inr todays" by blast
  then show ?thesis by (simp add: Dashboard_def)
qed

lemma Dashboard_view:
  assumes "Dashboard now js ms = Inr v"
  shows "alerts v = healthAlerts now js ms" and "shownAnxiety v = avgAnxiety now ms"
  using assms by (auto simp: Dashboard_def Let_def split: sum.splits)


lemma PsychoticSymptoms_in_alerts:
  "(PsychoticSymptoms n \<in> set (healthAlerts now js ms)) =
     (n = psychoticSymptomDays now ms \<and> 3 < n)"
  by (auto simp: healthAlerts_def)










lemma all_recent:
  assumes "\<And>x. x \<in> set js \<Longrightarrow> notBefore (Date_parse (date x)) (weekAgo now)"
  shows "recentJournalEntries now js = js"
  using assms by (simp add: recentJournalEntries_def)

text \<open>
  Claim C5. With journal entries dated 2024-03-01 to 2024-03-07, each with five hours of
  sleep and no medication, with no mood entry, and with the first date inside the
  window (so that all seven are): the dashboard is computed, the sleep-deficit alert is
  shown (mean sleep 5), the no-data alert is shown, and the low-adherence alert is not
  (the medication count is 0). The alerts are exactly low mood, sleep deficit and no
  data, in this order.
\<close>

theorem sleep_week_scenario:
  assumes dates: "map date js = [''2024-03-01'', ''2024-03-02'', ''2024-03-03'', ''2024-03-04'',
                                 ''2024-03-05'', ''2024-03-06'', ''2024-03-07'']"
    and fields: "\<forall>j \<in> set js. sleepHours j = 5 \<and> medications j = []"
    and window: "notBefore (Date_parse ''2024-03-01'') (weekAgo now)"
  shows "\<exists>v. Dashboard now js [] = Inr v
           \<and> SleepDeficit \<in> set (alerts v) \<and> NoData \<in> set (alerts v)
           \<and> LowAdherence \<notin> set (alerts v)
           \<and> shownSleep v = 5 \<and> shownTotalMeds v = 0
           \<and> alerts v = [LowMood, SleepDeficit, NoData]"
proof -
  from window have w: "weekAgo now \<le> 1709251200000"
    by (simp add: parse_march notBefore_def)
  have len: "length js = 7"
    using arg_cong[OF dates, of length] by simp
  have recent: "recentJournalEntries now js = js"
  proof (rule all_recent)
    fix x assume "x \<in> set js"
    then have "date x \<in> set (map date js)" by simp
    then have "date x \<in> {''2024-03-01'', ''2024-03-02'', ''2024-03-03'', ''2024-03-04'',
                           ''2024-03-05'', ''2024-03-06'', ''2024-03-07''}"
      unfolding dates by simp
    then show "notBefore (Date_parse (date x)) (weekAgo now)"
      using w by (auto simp: parse_march notBefore_def)
  qed
  have "sum_list (map sleepHours js) = 5 * real (length js)"
    using fields by (induction js) (simp_all add: algebra_simps)
  then have sleep: "avgSleep now js = 5"
    using len by (auto simp add: avgSleep_def recent rollingMean_sum_list)
  have "sum_list (map (\<lambda>e. length (medications e)) js) = 0"
    using fields by (induction js) simp_all
  then have total: "totalMeds now js = 0"
    by (simp add: totalMeds_sum_list recent)
  have mood: "recentMoodEntries now [] = []" by (simp add: recentMoodEntries_def)
  have al: "healthAlerts now js [] = [LowMood, SleepDeficit, NoData]"
    by (simp add: healthAlerts_def sleep total mood avgMood_def avgAnxiety_def rollingMean_def
        medicationAdherence_def psychoticSymptomDays_def)
  show ?thesis
    by (simp add: Dashboard_def al sleep total)
qed

text \<open>The scenario at noon of 2024-03-07.\<close>

theorem sleep_week_scenario_witness:
  "\<exists>v. Dashboard noon7March sleepWeek [] = Inr v
           \<and> SleepDeficit \<in> set (alerts v) \<and> NoData \<in> set (alerts v)
           \<and> LowAdherence \<notin> set (alerts v)
           \<and> shownSleep v = 5 \<and> shownTotalMeds v = 0
           \<and> alerts v = [LowMood, SleepDeficit, NoData]"
proof (rule sleep_week_scenario)
  show "map date sleepWeek = [''2024-03-01'', ''2024-03-02'', ''2024-03-03'', ''2024-03-04'',
                              ''2024-03-05'', ''2024-03-06'', ''2024-03-07'']"
    by (simp add: sleepWeek_def journalOn_def)
  show "\<forall>j \<in> set sleepWeek. sleepHours j = 5 \<and> medications j = []"
    by (simp add: sleepWeek_def journalOn_def)
  show "notBefore (Date_parse ''2024-03-01'') (weekAgo noon7March)"
    by (simp add: parse_march notBefore_def weekAgo_def noon7March_def msPerDay_def)
qed

lemma symptomsOneDay_valid: "\<forall>e \<in> set symptomsOneDay. Date_parse (timestamp e) \<noteq> None"
  by (simp add: symptomsOneDay_def moodAt_def parse_samples)

lemma recent_symptomsOneDay: "recentMoodEntries noon7March symptomsOneDay = symptomsOneDay"
  by (simp add: recentMoodEntries_def symptomsOneDay_def moodAt_def parse_samples notBefore_def
      weekAgo_def noon7March_def msPerDay_def)

text \<open>
  Claim C2. The specification lets the critical alert depend on the number of distinct
  days with a symptom. The source counts the window's entries with a symptom, not the
  days: four samples of one single day give the count 4 and show the alert, whose
  message reports four days, where the specification counts one day and shows none.
\<close>

theorem psychotic_alert_counts_entries:
  "symptomDaysDistinct noon7March symptomsOneDay = 1
   \<and> psychoticSymptomDays noon7March symptomsOneDay = 4
   \<and> (\<exists>v. Dashboard noon7March [] symptomsOneDay = Inr v
          \<and> PsychoticSymptoms 4 \<in> set (alerts v))"
proof -
  have code: "psychoticSymptomDays noon7March symptomsOneDay = 4"
    unfolding psychoticSymptomDays_def recent_symptomsOneDay
    by (simp add: symptomsOneDay_def moodAt_def)
  have days: "symptomDaysDistinct noon7March symptomsOneDay = 1"
    unfolding symptomDaysDistinct_def recent_symptomsOneDay
    by (simp add: symptomsOneDay_def moodAt_def parse_samples isoDate_samples)
  from Dashboard_renders[OF symptomsOneDay_valid]
  obtain v where v: "Dashboard noon7March [] symptomsOneDay = Inr v" by blast
  with code have "PsychoticSymptoms 4 \<in> set (alerts v)"
    by (simp add: Dashboard_view PsychoticSymptoms_in_alerts)
  with code days v show ?thesis by blast
qed

text \<open>The count of the source is never below the count of distinct days.\<close>

lemma symptomDaysDistinct_le: "symptomDaysDistinct now ms \<le> psychoticSymptomDays now ms"
  unfolding symptomDaysDistinct_def psychoticSymptomDays_def
  using length_remdups_leq[of "map (\<lambda>entry. map_option isoDate (Date_parse (timestamp entry)))
       (filter (\<lambda>entry. psychoticSymptoms entry \<noteq> []) (recentMoodEntries now ms))"]
  by simp


section \<open>Properties of the grouping by date\<close>

lemma keys_groupPush:
  "map fst (groupPush acc d e) =
     (if d \<in> fst ` set acc then map fst acc else map fst acc @ [d])"
proof -
  have "map fst (map (\<lambda>(k, g). if k = d then (k, g @ [e]) else (k, g)) xs) = map fst xs"
    for xs :: "(string \<times> 'a list) list"
    by (induction xs) auto
  then show ?thesis
    by (simp add: groupPush_def Let_def map_of_eq_None_iff)
qed

lemma distinct_groupPush:
  "distinct (map fst acc) \<Longrightarrow> distinct (map fst (groupPush acc d e))"
  by (simp add: keys_groupPush)

lemma map_of_push:
  "map_of (map (\<lambda>(k, g). if k = d then (k, g @ [e]) else (k, g)) xs) k =
     (if k = d then map_option (\<lambda>g. g @ [e]) (map_of xs k) else map_of xs k)"
  by (induction xs) auto

lemma groupOf_groupPush:
  "groupOf (groupPush acc d e) k = groupOf acc k @ (if k = d then [e] else [])"
  by (auto simp: groupOf_def groupPush_def Let_def map_of_push split: option.splits)

lemma moodByDateFrom_groups:
  assumes "moodByDateFrom acc rest = Inr groups" and "distinct (map fst acc)"
  shows "distinct (map fst groups)
       \<and> set (map fst groups) = fst ` set acc \<union> {k. \<exists>e \<in> set rest. toISODate (timestamp e) = Inr k}
       \<and> (\<forall>k. groupOf groups k =
                groupOf acc k @ filter (\<lambda>e. toISODate (timestamp e) = Inr k) rest)"
  using assms
proof (induction rest arbitrary: acc)
  case Nil
  then show ?case by simp
next
  case (Cons entry rest)
  from Cons.prems(1) obtain d where d: "toISODate (timestamp entry) = Inr d"
    and run: "moodByDateFrom (groupPush acc d entry) rest = Inr groups"
    by (auto split: sum.splits)
  note IH = Cons.IH[OF run distinct_groupPush[OF Cons.prems(2)]]
  have keys: "fst ` set (groupPush acc d entry) = insert d (fst ` set acc)"
    using keys_groupPush[of acc d entry, THEN arg_cong, of set] by (auto split: if_splits)
  from IH have "distinct (map fst groups)" by blast
  moreover from IH keys d
  have "set (map fst groups) =
          fst ` set acc \<union> {k. \<exists>e \<in> set (entry # rest). toISODate (timestamp e) = Inr k}"
    by auto
  moreover have "groupOf groups k =
      groupOf acc k @ filter (\<lambda>e. toISODate (timestamp e) = Inr k) (entry # rest)" for k
  proof -
    from IH have "groupOf groups k = groupOf (groupPush acc d entry) k
        @ filter (\<lambda>e. toISODate (timestamp e) = Inr k) rest" by blast
    then show ?thesis using d by (auto simp: groupOf_groupPush)
  qed
  ultimately show ?case by blast
qed










section \<open>Properties of the trailing windows\<close>












text \<open>
  The date-grouped window of the mood trend has the fixed size thirty: it keeps every
  group up to thirty, so ten days of samples give ten rows.
\<close>

lemma length_insertJS: "length (insertJS cmp x ys) = Suc (length ys)"
  by (induction ys) simp_all

lemma length_sortJS: "length (sortJS cmp xs) = length xs"
  by (induction xs) (simp_all add: sortJS_def length_insertJS)

lemma moodTrendData_length:
  assumes "moodTrendData ms = Inr rows"
  shows "length rows = min 30 (card {k. \<exists>e \<in> set ms. toISODate (timestamp e) = Inr k})"
proof -
  from assms obtain groups where g: "moodByDate ms = Inr groups"
    and rows: "rows = map moodTrendRow
                (sliceLast 30 (sortJS (\<lambda>a b. dateDiff (fst a) (fst b)) groups))"
    by (auto simp: moodTrendData_def split: sum.splits)
  from g have "moodByDateFrom [] ms = Inr groups" by (simp add: moodByDate_def)
  from moodByDateFrom_groups[OF this]
  have "distinct (map fst groups)"
    and "set (map fst groups) = {k. \<exists>e \<in> set ms. toISODate (timestamp e) = Inr k}"
    by simp_all
  then have "card {k. \<exists>e \<in> set ms. toISODate (timestamp e) = Inr k} = length groups"
    using distinct_card[of "map fst groups"] by simp
  then show ?thesis
    by (simp add: rows sliceLast_def length_sortJS)
qed

lemma moodTrendData_tenDays:
  "map_sum id (map trendDate) (moodTrendData tenDaysOfSamples) =
     Inr [''2024-03-01'', ''2024-03-02'', ''2024-03-03'', ''2024-03-04'', ''2024-03-05'',
          ''2024-03-06'', ''2024-03-07'', ''2024-03-08'', ''2024-03-09'', ''2024-03-10'']"
  by code_simp

end
